theory Spec2Isabelle
  imports Main "HOL-Library.Sublist"
begin

section \<open>Python strings and exceptions\<close>

text \<open>
  The scraper is Python; its text values are \<open>str\<close>.  They are modelled as \<open>string\<close>, which
  is exact for ASCII text: \<open>casefold\<close> below is Python's \<open>str.casefold\<close> on that range, and
  slices count characters.  Every exception the code can raise is a value of \<open>error\<close>, and a
  function that can raise returns \<open>error + 'a\<close>.
\<close>

text \<open>
  \<open>Unmodelled\<close> is not a Python exception: a library function of the model returns it on an
  input outside the fragment it covers (a replacement field of \<open>str.format\<close> other than
  \<open>{0}\<close>, a non-ASCII escape or too deep a nesting in \<open>json.loads\<close>).
\<close>

datatype error =
    KeyError string
  | IndexError
  | AttributeError
  | TypeError
  | ValueError
  | JSONDecodeError
  | Unmodelled

definition casefold_char :: "char \<Rightarrow> char" where
  "casefold_char c =
     (case map_of (zip ''ABCDEFGHIJKLMNOPQRSTUVWXYZ'' ''abcdefghijklmnopqrstuvwxyz'') c of
        Some d \<Rightarrow> d
      | None \<Rightarrow> c)"

definition casefold :: "string \<Rightarrow> string" where
  "casefold s = map casefold_char s"

text \<open>The characters \<open>str.strip()\<close> removes: tab, LF, VT, FF, CR, FS, GS, RS, US and space.\<close>

definition py_isspace :: "char \<Rightarrow> bool" where
  "py_isspace c \<longleftrightarrow>
     c \<in> set [CHR 0x09, CHR 0x0A, CHR 0x0B, CHR 0x0C, CHR 0x0D,
               CHR 0x1C, CHR 0x1D, CHR 0x1E, CHR 0x1F, CHR 0x20]"

definition py_strip :: "string \<Rightarrow> string" where
  "py_strip s = rev (dropWhile py_isspace (rev (dropWhile py_isspace s)))"

definition py_rstrip :: "string \<Rightarrow> string \<Rightarrow> string" where
  "py_rstrip chars s = rev (dropWhile (\<lambda>c. c \<in> set chars) (rev s))"

definition py_startswith :: "string \<Rightarrow> string \<Rightarrow> bool" where
  "py_startswith s pre \<longleftrightarrow> prefix pre s"

definition py_endswith :: "string \<Rightarrow> string \<Rightarrow> bool" where
  "py_endswith s suf \<longleftrightarrow> length suf \<le> length s \<and> drop (length s - length suf) s = suf"

text \<open>\<open>s.find(pat)\<close>: the least index at which \<open>pat\<close> occurs in \<open>s\<close>, if any.\<close>

fun find_sub :: "string \<Rightarrow> string \<Rightarrow> nat option" where
  "find_sub pat [] = (if pat = [] then Some 0 else None)"
| "find_sub pat (c # cs) =
     (if prefix pat (c # cs) then Some 0 else map_option Suc (find_sub pat cs))"

text \<open>\<open>pat in s\<close> and \<open>s.index(pat)\<close>, which raises ValueError when there is no occurrence.\<close>

definition py_in :: "string \<Rightarrow> string \<Rightarrow> bool" where
  "py_in pat s \<longleftrightarrow> find_sub pat s \<noteq> None"

definition py_index :: "string \<Rightarrow> string \<Rightarrow> error + nat" where
  "py_index s pat = (case find_sub pat s of None \<Rightarrow> Inl ValueError | Some i \<Rightarrow> Inr i)"

text \<open>\<open>s[i]\<close> for an integer \<open>i\<close>: a negative index counts from the end.\<close>

definition py_getitem :: "'a list \<Rightarrow> int \<Rightarrow> error + 'a" where
  "py_getitem xs i =
     (if 0 \<le> i \<and> i < int (length xs) then Inr (xs ! nat i)
      else if i < 0 \<and> - int (length xs) \<le> i then Inr (xs ! nat (int (length xs) + i))
      else Inl IndexError)"

text \<open>
  \<open>s.replace(old, new)\<close> and \<open>s.split(sep)\<close>, left to right over non-overlapping
  occurrences.  Every call in the scraper passes a non-empty literal for \<open>old\<close> and \<open>sep\<close>.
\<close>

function py_replace :: "string \<Rightarrow> string \<Rightarrow> string \<Rightarrow> string" where
  "py_replace old new [] = []"
| "py_replace old new (c # cs) =
     (if old \<noteq> [] \<and> prefix old (c # cs)
      then new @ py_replace old new (drop (length old) (c # cs))
      else c # py_replace old new cs)"
  by pat_completeness auto
termination
  by (relation "measure (\<lambda>(old, new, s). length s)") auto

function py_split_from :: "string \<Rightarrow> string \<Rightarrow> string \<Rightarrow> string list" where
  "py_split_from sep acc [] = [rev acc]"
| "py_split_from sep acc (c # cs) =
     (if sep \<noteq> [] \<and> prefix sep (c # cs)
      then rev acc # py_split_from sep [] (drop (length sep) (c # cs))
      else py_split_from sep (c # acc) cs)"
  by pat_completeness auto
termination
  by (relation "measure (\<lambda>(sep, acc, s). length s)") auto

definition py_split :: "string \<Rightarrow> string \<Rightarrow> string list" where
  "py_split sep s = py_split_from sep [] s"

text \<open>
  \<open>fmt.format(arg)\<close> with one positional argument.  Literal text is copied, \<open>{{\<close> and
  \<open>}}\<close> stand for one brace, \<open>{0}\<close> is replaced by the argument, and a brace without a
  partner raises ValueError.  Any other replacement field (a name, another index, a
  conversion or a format specification) is reported as \<open>Unmodelled\<close>.
\<close>

function py_format :: "string \<Rightarrow> string \<Rightarrow> error + string" where
  "py_format [] arg = Inr []"
| "py_format (c # cs) arg =
     (if c = CHR ''{'' then
        (if cs = [] then Inl ValueError
         else if hd cs = CHR ''{'' then map_sum id ((#) CHR ''{'') (py_format (tl cs) arg)
         else if CHR ''}'' \<notin> set cs then Inl ValueError
         else if takeWhile (\<lambda>d. d \<noteq> CHR ''}'') cs = ''0''
              then map_sum id ((@) arg) (py_format (tl (dropWhile (\<lambda>d. d \<noteq> CHR ''}'') cs)) arg)
         else Inl Unmodelled)
      else if c = CHR ''}'' then
        (if cs \<noteq> [] \<and> hd cs = CHR ''}'' then map_sum id ((#) CHR ''}'') (py_format (tl cs) arg)
         else Inl ValueError)
      else map_sum id ((#) c) (py_format cs arg))"
  by pat_completeness auto
termination
proof (relation "measure (\<lambda>(fmt, arg). length fmt)")
  fix c :: char and cs :: string
  have "length (dropWhile (\<lambda>d. d \<noteq> CHR ''}'') cs) \<le> length cs"
    by (rule length_dropWhile_le)
  then show "((tl (dropWhile (\<lambda>d. d \<noteq> CHR ''}'') cs), arg), c # cs, arg)
               \<in> measure (\<lambda>(fmt, arg). length fmt)" for arg :: string
    by simp
qed auto

section \<open>The comma repair of the example JSON\<close>

text \<open>
  \<open>fix_json_property\<close> is a \<open>while True\<close> loop over the pair \<open>(string_copy, index)\<close>.  Each
  round searches the quoted property name in \<open>string_copy[index:]\<close> and stores the position
  found, relative to that slice, back into \<open>index\<close>; it then reads \<open>string_copy[index - 1]\<close>
  and either inserts a comma at \<open>index\<close> and goes round again, or returns.  The loop may in
  principle run forever, so it is a partial function: \<open>None\<close> stands for not returning.
\<close>

definition quoted :: "string \<Rightarrow> string" where
  "quoted property_name = CHR 0x22 # property_name @ [CHR 0x22]"

partial_function (option) fix_json_loop :: "string \<Rightarrow> string \<Rightarrow> nat \<Rightarrow> (error + string) option" where
  "fix_json_loop pat string_copy index =
     (case find_sub pat (drop index string_copy) of
        None \<Rightarrow> Some (Inr string_copy)
      | Some i \<Rightarrow>
          (case py_getitem string_copy (int i - 1) of
             Inl e \<Rightarrow> Some (Inl e)
           | Inr c \<Rightarrow>
               if c \<notin> set [CHR '','', CHR ''{'']
               then fix_json_loop pat (take i string_copy @ '','' @ drop i string_copy) i
               else Some (Inr string_copy)))"

declare fix_json_loop.simps [code]

definition fix_json_property :: "string \<Rightarrow> string \<Rightarrow> (error + string) option" where
  "fix_json_property json_string property_name =
     fix_json_loop (quoted property_name) json_string 0"

section \<open>The example response as a JSON value\<close>

text \<open>
  \<open>json.loads\<close> is modelled on ASCII text.  Numbers keep their lexeme and objects keep
  their members in source order, duplicates included, so equality of two \<open>json\<close> values
  implies equality of the Python values they stand for.
\<close>

datatype json =
    JNull
  | JBool bool
  | JNumber string
  | JString string
  | JArray "json list"
  | JObject "(string \<times> json) list"

definition json_ws :: "char \<Rightarrow> bool" where
  "json_ws c \<longleftrightarrow> c \<in> set [CHR 0x20, CHR 0x09, CHR 0x0A, CHR 0x0D]"

definition skip_ws :: "string \<Rightarrow> string" where
  "skip_ws s = dropWhile json_ws s"

definition is_digit :: "char \<Rightarrow> bool" where
  "is_digit c \<longleftrightarrow> c \<in> set ''0123456789''"

definition hex_value :: "char \<Rightarrow> nat option" where
  "hex_value c = map_of (zip ''0123456789abcdefABCDEF''
                   [0, 1, 2, 3, 4, 5, 6, 7, 8, 9, 10, 11, 12, 13, 14, 15, 10, 11, 12, 13, 14, 15]) c"

text \<open>The value of the four hexadecimal digits of a \<open>\\u\<close> escape.\<close>

definition hex4 :: "string \<Rightarrow> nat option" where
  "hex4 ds =
     (if length ds = 4 \<and> (\<forall>d \<in> set ds. hex_value d \<noteq> None)
      then Some (foldl (\<lambda>n d. 16 * n + the (hex_value d)) 0 ds)
      else None)"

text \<open>
  The body of a string literal, after its opening quote: up to the closing quote, with the
  escapes decoded and control characters refused (\<open>strict\<close> is on by default).
\<close>

function scan_string :: "string \<Rightarrow> string \<Rightarrow> error + (string \<times> string)" where
  "scan_string acc [] = Inl JSONDecodeError"
| "scan_string acc (c # cs) =
     (if c = CHR 0x22 then Inr (rev acc, cs)
      else if c = CHR 0x5C then
        (case cs of
           [] \<Rightarrow> Inl JSONDecodeError
         | e # es \<Rightarrow>
             if e = CHR ''u'' then
               (case hex4 (take 4 es) of
                  None \<Rightarrow> Inl JSONDecodeError
                | Some n \<Rightarrow>
                    if n < 128 then scan_string (char_of n # acc) (drop 4 es)
                    else Inl Unmodelled)
             else
               (case map_of [(CHR 0x22, CHR 0x22), (CHR 0x5C, CHR 0x5C), (CHR ''/'', CHR ''/''),
                             (CHR ''b'', CHR 0x08), (CHR ''f'', CHR 0x0C), (CHR ''n'', CHR 0x0A),
                             (CHR ''r'', CHR 0x0D), (CHR ''t'', CHR 0x09)] e of
                  None \<Rightarrow> Inl JSONDecodeError
                | Some d \<Rightarrow> scan_string (d # acc) es))
      else if (of_char c :: nat) < 32 then Inl JSONDecodeError
      else scan_string (c # acc) cs)"
  by pat_completeness auto
termination
  by (relation "measure (\<lambda>(acc, s). length s)") auto

text \<open>
  A number, by the scanner's pattern: an optional minus, \<open>0\<close> or a digit string without
  leading zero, then optionally a fraction and optionally an exponent.
\<close>

definition scan_digits :: "string \<Rightarrow> (string \<times> string) option" where
  "scan_digits s =
     (if s \<noteq> [] \<and> is_digit (hd s) then Some (takeWhile is_digit s, dropWhile is_digit s)
      else None)"

definition scan_int_part :: "string \<Rightarrow> (string \<times> string) option" where
  "scan_int_part s =
     (case s of
        [] \<Rightarrow> None
      | c # cs \<Rightarrow> if c = CHR ''0'' then Some (''0'', cs) else scan_digits s)"

definition scan_frac :: "string \<Rightarrow> string \<times> string" where
  "scan_frac s =
     (case s of
        c # cs \<Rightarrow>
          (if c = CHR ''.'' then
             (case scan_digits cs of Some (ds, r) \<Rightarrow> (c # ds, r) | None \<Rightarrow> ([], s))
           else ([], s))
      | [] \<Rightarrow> ([], s))"

definition scan_exp :: "string \<Rightarrow> string \<times> string" where
  "scan_exp s =
     (case s of
        c # cs \<Rightarrow>
          (if c = CHR ''e'' \<or> c = CHR ''E'' then
             (let sign = (if cs \<noteq> [] \<and> (hd cs = CHR ''-'' \<or> hd cs = CHR ''+'') then [hd cs] else [])
              in case scan_digits (drop (length sign) cs) of
                   Some (ds, r) \<Rightarrow> (c # sign @ ds, r)
                 | None \<Rightarrow> ([], s))
           else ([], s))
      | [] \<Rightarrow> ([], s))"

definition scan_number :: "string \<Rightarrow> (string \<times> string) option" where
  "scan_number s =
     (let sign = (if s \<noteq> [] \<and> hd s = CHR ''-'' then ''-'' else [])
      in case scan_int_part (drop (length sign) s) of
           None \<Rightarrow> None
         | Some (ip, r1) \<Rightarrow>
             (let (fp, r2) = scan_frac r1; (ep, r3) = scan_exp r2
              in Some (sign @ ip @ fp @ ep, r3)))"

text \<open>
  The recursive scanner.  \<open>parse_value\<close> stands at the first character of a value,
  \<open>parse_items\<close> at the first character of an array element and \<open>parse_members\<close> at the
  place where an object key must open.  The first argument bounds the number of nested
  calls; \<open>json_loads\<close> passes more than the text can use, one call consuming at least one
  character.
\<close>

fun parse_value :: "nat \<Rightarrow> string \<Rightarrow> error + (json \<times> string)"
  and parse_items :: "nat \<Rightarrow> json list \<Rightarrow> string \<Rightarrow> error + (json list \<times> string)"
  and parse_members :: "nat \<Rightarrow> (string \<times> json) list \<Rightarrow> string \<Rightarrow>
                         error + ((string \<times> json) list \<times> string)"
where
  "parse_value 0 s = Inl Unmodelled"
| "parse_value (Suc n) s =
     (if s = [] then Inl JSONDecodeError
      else if hd s = CHR 0x22 then
        (case scan_string [] (tl s) of Inl e \<Rightarrow> Inl e | Inr (str, r) \<Rightarrow> Inr (JString str, r))
      else if hd s = CHR ''{'' then
        (if skip_ws (tl s) \<noteq> [] \<and> hd (skip_ws (tl s)) = CHR ''}''
         then Inr (JObject [], tl (skip_ws (tl s)))
         else (case parse_members n [] (skip_ws (tl s)) of
                 Inl e \<Rightarrow> Inl e
               | Inr (ms, r) \<Rightarrow> Inr (JObject ms, r)))
      else if hd s = CHR ''['' then
        (if skip_ws (tl s) \<noteq> [] \<and> hd (skip_ws (tl s)) = CHR '']''
         then Inr (JArray [], tl (skip_ws (tl s)))
         else (case parse_items n [] (skip_ws (tl s)) of
                 Inl e \<Rightarrow> Inl e
               | Inr (vs, r) \<Rightarrow> Inr (JArray vs, r)))
      else if prefix ''null'' s then Inr (JNull, drop 4 s)
      else if prefix ''true'' s then Inr (JBool True, drop 4 s)
      else if prefix ''false'' s then Inr (JBool False, drop 5 s)
      else (case scan_number s of
              Some (lexeme, r) \<Rightarrow> Inr (JNumber lexeme, r)
            | None \<Rightarrow>
                if prefix ''NaN'' s then Inr (JNumber ''NaN'', drop 3 s)
                else if prefix ''Infinity'' s then Inr (JNumber ''Infinity'', drop 8 s)
                else if prefix ''-Infinity'' s then Inr (JNumber ''-Infinity'', drop 9 s)
                else Inl JSONDecodeError))"
| "parse_items 0 acc s = Inl Unmodelled"
| "parse_items (Suc n) acc s =
     (case parse_value n s of
        Inl e \<Rightarrow> Inl e
      | Inr (v, r) \<Rightarrow>
          (let r' = skip_ws r
           in if r' = [] then Inl JSONDecodeError
              else if hd r' = CHR '']'' then Inr (rev (v # acc), tl r')
              else if hd r' = CHR '','' then parse_items n (v # acc) (skip_ws (tl r'))
              else Inl JSONDecodeError))"
| "parse_members 0 acc s = Inl Unmodelled"
| "parse_members (Suc n) acc s =
     (if s = [] \<or> hd s \<noteq> CHR 0x22 then Inl JSONDecodeError
      else (case scan_string [] (tl s) of
              Inl e \<Rightarrow> Inl e
            | Inr (k, r) \<Rightarrow>
                (let r1 = skip_ws r
                 in if r1 = [] \<or> hd r1 \<noteq> CHR '':'' then Inl JSONDecodeError
                    else (case parse_value n (skip_ws (tl r1)) of
                            Inl e \<Rightarrow> Inl e
                          | Inr (v, r2) \<Rightarrow>
                              (let r3 = skip_ws r2
                               in if r3 = [] then Inl JSONDecodeError
                                  else if hd r3 = CHR ''}'' then Inr (rev ((k, v) # acc), tl r3)
                                  else if hd r3 = CHR '','' then parse_members n ((k, v) # acc) (skip_ws (tl r3))
                                  else Inl JSONDecodeError)))))"

text \<open>\<open>json.loads\<close>: one value between optional whitespace, and nothing after it.\<close>

definition json_loads :: "string \<Rightarrow> error + json" where
  "json_loads s =
     (case parse_value (Suc (length s)) (skip_ws s) of
        Inl e \<Rightarrow> Inl e
      | Inr (v, r) \<Rightarrow> if skip_ws r = [] then Inr v else Inl JSONDecodeError)"

section \<open>The parsed page\<close>

text \<open>
  The HTML parser is outside the program; the model starts from the tree it returns.  A node
  is a \<open>NavigableString\<close> or a \<open>Tag\<close> with its name, attributes and children.  An attribute
  value is a string, or a list of strings for a multi-valued attribute such as \<open>class\<close>.
\<close>

datatype attr = Str string | Multi "string list"

datatype node =
    NavigableString string
  | Tag string "(string \<times> attr) list" "node list"

text \<open>\<open>name\<close> of a string node is \<open>None\<close>, as in the library.\<close>

fun name :: "node \<Rightarrow> string option" where
  "name (NavigableString s) = None"
| "name (Tag nm ats cs) = Some nm"

fun attrs :: "node \<Rightarrow> (string \<times> attr) list" where
  "attrs (NavigableString s) = []"
| "attrs (Tag nm ats cs) = ats"

fun children :: "node \<Rightarrow> node list" where
  "children (NavigableString s) = []"
| "children (Tag nm ats cs) = cs"

fun isTag :: "node \<Rightarrow> bool" where
  "isTag (NavigableString s) = False"
| "isTag (Tag nm ats cs) = True"

text \<open>The nodes below a node, and the strings in and below it, both in document order.\<close>

fun descendants :: "node \<Rightarrow> node list" where
  "descendants (NavigableString s) = []"
| "descendants (Tag nm ats cs) = concat (map (\<lambda>c. c # descendants c) cs)"

fun all_strings :: "node \<Rightarrow> string list" where
  "all_strings (NavigableString s) = [s]"
| "all_strings (Tag nm ats cs) = concat (map all_strings cs)"

fun py_join :: "string \<Rightarrow> string list \<Rightarrow> string" where
  "py_join sep [] = []"
| "py_join sep [x] = x"
| "py_join sep (x # y # ys) = x @ sep @ py_join sep (y # ys)"

text \<open>
  \<open>get_text(separator, strip)\<close>: the strings of the subtree joined by the separator; with
  \<open>strip\<close> each string is stripped first and dropped when nothing is left of it.
\<close>

definition get_text :: "node \<Rightarrow> string \<Rightarrow> bool \<Rightarrow> string" where
  "get_text t separator strip =
     py_join separator
       (if strip then filter (\<lambda>s. s \<noteq> []) (map py_strip (all_strings t)) else all_strings t)"

text \<open>
  The matchers of \<open>find\<close>, \<open>find_all\<close> and \<open>find_next\<close>: by tag name, and by a value of the
  \<open>class\<close> attribute (one of its values, or all of them joined by spaces).
\<close>

definition named :: "string \<Rightarrow> node \<Rightarrow> bool" where
  "named nm t \<longleftrightarrow> name t = Some nm"

definition has_class :: "string \<Rightarrow> node \<Rightarrow> bool" where
  "has_class c t \<longleftrightarrow>
     (case map_of (attrs t) ''class'' of
        None \<Rightarrow> False
      | Some (Str v) \<Rightarrow> v = c
      | Some (Multi vs) \<Rightarrow> c \<in> set vs \<or> py_join '' '' vs = c)"

definition find_tag :: "node \<Rightarrow> (node \<Rightarrow> bool) \<Rightarrow> node option" where
  "find_tag t P = List.find P (descendants t)"

definition find_all :: "node \<Rightarrow> (node \<Rightarrow> bool) \<Rightarrow> node list" where
  "find_all t P = filter P (descendants t)"

text \<open>Truth value of \<open>attrs.get(k, None)\<close>: present and not empty.\<close>

definition attr_truthy :: "attr option \<Rightarrow> bool" where
  "attr_truthy a =
     (case a of None \<Rightarrow> False | Some (Str v) \<Rightarrow> v \<noteq> [] | Some (Multi vs) \<Rightarrow> vs \<noteq> [])"

text \<open>
  \<open>for x in xs: state = body(state, x)\<close>, where the body may raise: the loop stops at the
  first exception.
\<close>

fun fold_err :: "('s \<Rightarrow> 'a \<Rightarrow> error + 's) \<Rightarrow> 'a list \<Rightarrow> 's \<Rightarrow> error + 's" where
  "fold_err body [] s = Inr s"
| "fold_err body (x # xs) s =
     (case body s x of Inl e \<Rightarrow> Inl e | Inr s' \<Rightarrow> fold_err body xs s')"

section \<open>The records of the scraper\<close>

text \<open>
  \<open>HttpField\<close> and \<open>EndpointDoc\<close> are dictionaries whose keys are all optional
  (\<open>total=False\<close>).  A key that has not been assigned is \<open>None\<close>.  \<open>key\<close> and \<open>type\<close> are in the
  dictionary literal that creates every field, so they are plain strings.  The key
  \<open>method\<close> of \<open>EndpointDoc\<close> is the field \<open>http_method\<close>.
\<close>

record HttpField =
  key :: string
  type :: string
  required :: "bool option"
  description :: "string option"
  default_value :: "string option"
  possible_values :: "string list option"

record EndpointDoc =
  summary :: "string option"
  url :: "string option"
  http_method :: "string option"
  title :: "string option"
  scopes :: "string list option"
  request_body :: "HttpField list option"
  response_body :: "HttpField list option"
  query_params :: "HttpField list option"
  example_response :: "json option"

definition new_field :: "string \<Rightarrow> string \<Rightarrow> HttpField" where
  "new_field k t =
     \<lparr>key = k, type = t, required = None, description = None,
      default_value = None, possible_values = None\<rparr>"

definition empty_doc :: EndpointDoc where
  "empty_doc =
     \<lparr>summary = None, url = None, http_method = None, title = None, scopes = None,
      request_body = None, response_body = None, query_params = None,
      example_response = None\<rparr>"

section \<open>Scopes, possible values and field tables\<close>

definition pull_scopes :: "node \<Rightarrow> string list" where
  "pull_scopes tag =
     map (\<lambda>scope_tag. casefold (get_text scope_tag '' '' True)) (find_all tag (named ''strong''))"

text \<open>The em dash U+2014, the one character outside ASCII the code names, as its UTF-8 bytes.\<close>

definition em_dash :: string where
  "em_dash = [CHR 0xE2, CHR 0x80, CHR 0x94]"

definition possible_value :: "node \<Rightarrow> string" where
  "possible_value child =
     (let value_text = get_text child '' '' True
      in if py_in em_dash value_text then hd (py_split ('' '' @ em_dash @ '' '') value_text)
         else if py_in ''-'' value_text then hd (py_split '' - '' value_text)
         else value_text)"

definition pull_possible_values_list :: "node \<Rightarrow> string list" where
  "pull_possible_values_list tag =
     (case find_tag tag (named ''ul'') of
        None \<Rightarrow> []
      | Some values_list_tag \<Rightarrow> map possible_value (filter isTag (children values_list_tag)))"

text \<open>
  Lines 104 to 115 of \<open>parse_request_body\<close>: the default value read from the description.
  The slice starts one character after the literal; the token ends at the first space; a
  token that starts with a double quote loses its first and its last character; then
  trailing full stops and commas are removed.
\<close>

definition default_value_of :: "string \<Rightarrow> string option" where
  "default_value_of descr =
     (if py_in ''The default is'' descr then
        (case py_index descr ''The default is'' of
           Inl e \<Rightarrow> None
         | Inr index \<Rightarrow>
             (let v = hd (py_split '' '' (drop (index + length ''the default is'' + 1) descr));
                  v = (if py_startswith v [CHR 0x22] then drop 1 (butlast v) else v)
              in Some (py_rstrip ''.,'' v)))
      else None)"

text \<open>
  One round of the loop of \<open>parse_request_body\<close>, for a row that is a tag, in two parts.
  \<open>request_cells\<close> is lines 80 to 99: the field read from the cells of the row, with the cell
  that holds the description.  Reading a cell that is not there raises IndexError.
\<close>

definition request_cells :: "node list \<Rightarrow> error + (HttpField \<times> node)" where
  "request_cells table_data =
     (case py_getitem table_data 0 of
        Inl e \<Rightarrow> Inl e
      | Inr td0 \<Rightarrow>
          (case py_getitem table_data 1 of
             Inl e \<Rightarrow> Inl e
           | Inr td1 \<Rightarrow>
               (let field = new_field (get_text td0 '' '' True) (casefold (get_text td1 '' '' True))
                in if length table_data = 4 then
                     (case py_getitem table_data 2 of
                        Inl e \<Rightarrow> Inl e
                      | Inr td2 \<Rightarrow>
                          (case py_getitem table_data 3 of
                             Inl e \<Rightarrow> Inl e
                           | Inr td3 \<Rightarrow>
                               (let bool_text = casefold (get_text td2 [] True);
                                    field = field\<lparr>description := Some (get_text td3 '' '' True)\<rparr>
                                in Inr (if bool_text = ''yes'' then field\<lparr>required := Some True\<rparr>
                                        else if bool_text = ''no'' then field\<lparr>required := Some False\<rparr>
                                        else field,
                                        td3))))
                   else
                     (case py_getitem table_data 2 of
                        Inl e \<Rightarrow> Inl e
                      | Inr td2 \<Rightarrow>
                          Inr (field\<lparr>required := Some False,
                                     description := Some (get_text td2 '' '' True)\<rparr>,
                               td2)))))"

text \<open>Lines 101 to 115: the possible values and the default value, read from the description.\<close>

definition annotate_field :: "HttpField \<Rightarrow> node \<Rightarrow> error + HttpField" where
  "annotate_field field raw_description =
     (case description field of
        None \<Rightarrow> Inl (KeyError ''description'')
      | Some descr \<Rightarrow>
          (let field =
                 (if py_in ''Possible values'' descr \<and> type field = casefold ''string''
                  then field\<lparr>possible_values := Some (pull_possible_values_list raw_description)\<rparr>
                  else field)
           in Inr (case default_value_of descr of
                     None \<Rightarrow> field
                   | Some v \<Rightarrow> field\<lparr>default_value := Some v\<rparr>)))"

definition parse_request_row :: "node \<Rightarrow> error + HttpField" where
  "parse_request_row row =
     (case request_cells (filter isTag (children row)) of
        Inl e \<Rightarrow> Inl e
      | Inr (field, raw_description) \<Rightarrow> annotate_field field raw_description)"

definition parse_request_body :: "node \<Rightarrow> error + HttpField list" where
  "parse_request_body tag =
     (case find_tag tag (named ''tbody'') of
        None \<Rightarrow> Inl AttributeError
      | Some body_tag \<Rightarrow>
          fold_err
            (\<lambda>container row.
               if \<not> isTag row then Inr container
               else (case parse_request_row row of
                       Inl e \<Rightarrow> Inl e
                     | Inr field \<Rightarrow> Inr (container @ [field])))
            (children body_tag) [])"

text \<open>
  One round of the loop of \<open>parse_response_body\<close>: the field of the row and the format string
  for the rows after it.  The test for \<open>[]\<close> and \<open>Object\<close> is made on the key stored in the
  field, which already carries the prefix; the new format string is built from the text of
  the row's first cell.
\<close>

definition parse_response_row ::
    "string option \<Rightarrow> node \<Rightarrow> error + (HttpField \<times> string option)" where
  "parse_response_row key_format_string row =
     (let data = filter isTag (children row)
      in case py_getitem data 0 of
           Inl e \<Rightarrow> Inl e
         | Inr d0 \<Rightarrow>
             (case py_getitem data 1 of
                Inl e \<Rightarrow> Inl e
              | Inr d1 \<Rightarrow>
                  (case py_getitem data 2 of
                     Inl e \<Rightarrow> Inl e
                   | Inr d2 \<Rightarrow>
                       (let k = get_text d0 '' '' True;
                            data_type = get_text d1 '' '' True;
                            descr = get_text d2 '' '' True
                        in case (case key_format_string of
                                   None \<Rightarrow> Inr k
                                 | Some f \<Rightarrow> py_format f k) of
                             Inl e \<Rightarrow> Inl e
                           | Inr formatted \<Rightarrow>
                               (let field = (new_field (casefold formatted) (casefold data_type))
                                              \<lparr>description := Some descr\<rparr>
                                in Inr (field,
                                        if py_endswith (casefold (key field)) (casefold ''[]'')
                                        then Some (k @ ''[#].'' @ ''{0}'')
                                        else if py_startswith (casefold (key field)) (casefold ''Object'')
                                        then Some (k @ ''.'' @ ''{0}'')
                                        else key_format_string))))))"

text \<open>
  The body of the loop: a string node is passed over, the field of a tag is appended to the
  container.
\<close>

definition response_round ::
    "HttpField list \<times> string option \<Rightarrow> node \<Rightarrow> error + (HttpField list \<times> string option)" where
  "response_round st row =
     (if \<not> isTag row then Inr st
      else (case parse_response_row (snd st) row of
              Inl e \<Rightarrow> Inl e
            | Inr (field, f) \<Rightarrow> Inr (fst st @ [field], f)))"

definition parse_response_body :: "node \<Rightarrow> error + HttpField list" where
  "parse_response_body tag =
     (case find_tag tag (named ''tbody'') of
        None \<Rightarrow> Inl AttributeError
      | Some body_tag \<Rightarrow>
          map_sum id fst (fold_err response_round (children body_tag) ([], None)))"

section \<open>The left column of a section\<close>

text \<open>
  One round of the loop of \<open>scrape_doc_left_column\<close>, on the pair of the record under
  construction and \<open>current_header\<close>.  The branches are in the order of the source.  The second
  test reads \<open>endpoint_doc["title"]\<close> as soon as the child is a paragraph, which raises
  KeyError when no title has been stored.
\<close>

definition left_column_step ::
    "EndpointDoc \<times> string option \<Rightarrow> node \<Rightarrow> error + (EndpointDoc \<times> string option)" where
  "left_column_step st child =
     (let endpoint_doc = fst st; current_header = snd st
      in if name child = Some ''h2'' \<and> attr_truthy (map_of (attrs child) ''id'') then
           (let t = get_text child '' '' True
            in Inr (endpoint_doc\<lparr>title := Some t\<rparr>, Some t))
         else if name child = Some ''p'' \<and> title endpoint_doc = None then
           Inl (KeyError ''title'')
         else if name child = Some ''p'' \<and> current_header = title endpoint_doc then
           (let s = (case summary endpoint_doc of
                       None \<Rightarrow> []
                     | Some s \<Rightarrow> s)
            in Inr (endpoint_doc\<lparr>summary :=
                      Some (py_strip (s @ [CHR 0x0A, CHR 0x0A] @ get_text child '' '' True))\<rparr>,
                    current_header))
         else if name child = Some ''h3'' then
           Inr (endpoint_doc, Some (get_text child '' '' True))
         else if name child = Some ''p'' \<and> current_header = Some ''Authorization'' then
           Inr (endpoint_doc\<lparr>scopes := Some (pull_scopes child)\<rparr>, current_header)
         else if name child = Some ''p'' \<and> current_header = Some ''URL'' then
           (let segments = py_split '' '' (get_text child '' '' True)
            in if length segments = 2
               then Inr (endpoint_doc\<lparr>http_method := Some (segments ! 0), url := Some (segments ! 1)\<rparr>,
                         current_header)
               else (case py_getitem segments 0 of
                       Inl e \<Rightarrow> Inl e
                     | Inr u \<Rightarrow> Inr (endpoint_doc\<lparr>http_method := Some ''GET'', url := Some u\<rparr>,
                                     current_header)))
         else if name child = Some ''table'' \<and> current_header = Some ''Request Body'' then
           (case parse_request_body child of
              Inl e \<Rightarrow> Inl e
            | Inr fs \<Rightarrow> Inr (endpoint_doc\<lparr>request_body := Some fs\<rparr>, current_header))
         else if name child = Some ''table'' \<and> current_header = Some ''Request Query Parameters'' then
           (case parse_request_body child of
              Inl e \<Rightarrow> Inl e
            | Inr fs \<Rightarrow> Inr (endpoint_doc\<lparr>query_params := Some fs\<rparr>, current_header))
         else if name child = Some ''table'' \<and> current_header = Some ''Response Body'' then
           (case parse_response_body child of
              Inl e \<Rightarrow> Inl e
            | Inr fs \<Rightarrow> Inr (endpoint_doc\<lparr>response_body := Some fs\<rparr>, current_header))
         else Inr st)"

definition scrape_doc_left_column :: "node \<Rightarrow> error + EndpointDoc" where
  "scrape_doc_left_column tag =
     map_sum id fst (fold_err left_column_step (children tag) (empty_doc, None))"

section \<open>A section of the page and the whole page\<close>

text \<open>
  \<open>find_next\<close> searches the elements that come after a node in document order, its own
  descendants first.  A node is therefore passed together with that list.  \<open>find_located\<close>
  is \<open>find\<close> that keeps track of it: it searches a list of sibling subtrees, given the
  elements \<open>after\<close> that follow all of them, and returns the first match with the elements
  that follow the subtree of the match.
\<close>

definition flatten :: "node list \<Rightarrow> node list" where
  "flatten ns = concat (map (\<lambda>c. c # descendants c) ns)"

function find_located ::
    "(node \<Rightarrow> bool) \<Rightarrow> node list \<Rightarrow> node list \<Rightarrow> (node \<times> node list) option" where
  "find_located P [] after = None"
| "find_located P (c # cs) after =
     (if P c then Some (c, flatten cs @ after)
      else (case find_located P (children c) (flatten cs @ after) of
              Some r \<Rightarrow> Some r
            | None \<Rightarrow> find_located P cs after))"
  by pat_completeness auto
termination
proof (relation "measure (\<lambda>(P, ns, after). size_list size ns)")
  show "((P, children c, flatten cs @ after), P, c # cs, after)
          \<in> measure (\<lambda>(P, ns, after). size_list size ns)"
    for P :: "node \<Rightarrow> bool" and c :: node and cs after :: "node list"
    by (cases c) simp_all
qed simp_all

text \<open>
  Lines 222 to 226 of \<open>scrape_doc_section\<close>: the rewriting of the text of the example before
  it is parsed.
\<close>

definition repair :: "string \<Rightarrow> (error + string) option" where
  "repair right_column_text =
     (let t = py_replace ''...'' [] right_column_text;
          t = py_replace '',]'' '']'' t;
          t = py_replace '',}'' ''}'' t
      in case fix_json_property t ''data'' of
           None \<Rightarrow> None
         | Some (Inl e) \<Rightarrow> Some (Inl e)
         | Some (Inr t) \<Rightarrow> fix_json_property t ''click_action'')"

text \<open>Lines 222 to 229: the repaired text handed to \<open>json.loads\<close>.\<close>

definition repair_and_parse :: "string \<Rightarrow> (error + json) option" where
  "repair_and_parse right_column_text =
     (case repair right_column_text of
        None \<Rightarrow> None
      | Some (Inl e) \<Rightarrow> Some (Inl e)
      | Some (Inr t) \<Rightarrow> Some (json_loads t))"

text \<open>
  \<open>scrape_doc_section\<close> takes the section with the elements after it.  Its result is the
  record of the left column, or Python's \<open>None\<close> when there is no left column.  A text that
  does not parse is reported on the standard output, which is not modelled, and leaves the
  record without an example; storing an example into \<open>None\<close> raises TypeError.
\<close>

definition scrape_doc_section :: "node \<times> node list \<Rightarrow> (error + EndpointDoc option) option" where
  "scrape_doc_section located =
     (let next_elements = descendants (fst located) @ snd located;
          section_of = (\<lambda>c. List.find (\<lambda>t. named ''section'' t \<and> has_class c t) next_elements)
      in case (case section_of ''left-docs'' of
                 None \<Rightarrow> Inr None
               | Some left_doc_column \<Rightarrow> map_sum id Some (scrape_doc_left_column left_doc_column)) of
           Inl e \<Rightarrow> Some (Inl e)
         | Inr left_doc_scrape_result \<Rightarrow>
             (case section_of ''right-code'' of
                None \<Rightarrow> Some (Inl AttributeError)
              | Some right_doc_column \<Rightarrow>
                  (case find_tag right_doc_column
                          (\<lambda>t. named ''div'' t \<and> has_class ''language-json'' t) of
                     None \<Rightarrow> Some (Inr left_doc_scrape_result)
                   | Some right_response_column \<Rightarrow>
                       (case repair_and_parse (get_text right_response_column [] True) of
                          None \<Rightarrow> None
                        | Some (Inl e) \<Rightarrow>
                            if e = JSONDecodeError then Some (Inr left_doc_scrape_result)
                            else Some (Inl e)
                        | Some (Inr v) \<Rightarrow>
                            (case left_doc_scrape_result of
                               None \<Rightarrow> Some (Inl TypeError)
                             | Some d \<Rightarrow> Some (Inr (Some (d\<lparr>example_response := Some v\<rparr>))))))))"

text \<open>
  The loop of \<open>scrape_docs\<close> over the children of the main container, with the flag
  \<open>at_endpoint_definition_table\<close>.  \<open>after\<close> holds the elements that follow the container.
  The result lists what the generator yields; an exception ends the run.
\<close>

fun scrape_children ::
    "bool \<Rightarrow> node list \<Rightarrow> node list \<Rightarrow> (error + EndpointDoc option list) option" where
  "scrape_children at_endpoint_definition_table [] after = Some (Inr [])"
| "scrape_children at_endpoint_definition_table (child # rest) after =
     (if at_endpoint_definition_table
         \<or> (case name child of
               None \<Rightarrow> True
             | Some nm \<Rightarrow> casefold nm \<noteq> casefold ''section'')
      then scrape_children False rest after
      else (case scrape_doc_section (child, flatten rest @ after) of
              None \<Rightarrow> None
            | Some (Inl e) \<Rightarrow> Some (Inl e)
            | Some (Inr d) \<Rightarrow>
                (case scrape_children at_endpoint_definition_table rest after of
                   None \<Rightarrow> None
                 | Some (Inl e) \<Rightarrow> Some (Inl e)
                 | Some (Inr ds) \<Rightarrow> Some (Inr (d # ds)))))"

text \<open>
  The HTTP response: its \<open>ok\<close> flag and the tree the parser makes of its body.
\<close>

record response =
  ok :: bool
  soup :: node

definition scrape_docs :: "response \<Rightarrow> (error + EndpointDoc option list) option" where
  "scrape_docs resp =
     (if \<not> ok resp then Some (Inr [])
      else (case find_located (named ''body'') (children (soup resp)) [] of
              None \<Rightarrow> Some (Inl AttributeError)
            | Some (body, after_body) \<Rightarrow>
                (case find_located (\<lambda>t. named ''div'' t \<and> has_class ''main'' t)
                        (children body) after_body of
                   None \<Rightarrow> Some (Inl AttributeError)
                 | Some (doc_section, after_main) \<Rightarrow>
                     scrape_children True (children doc_section) after_main)))"

text \<open>
  \<open>main\<close> collects the results that are not falsy, that is neither \<open>None\<close> nor the empty
  dictionary, and writes the list to the output file.  The model returns the list written.
\<close>

definition main :: "response \<Rightarrow> (error + EndpointDoc list) option" where
  "main resp =
     (case scrape_docs resp of
        None \<Rightarrow> None
      | Some (Inl e) \<Rightarrow> Some (Inl e)
      | Some (Inr results) \<Rightarrow>
          Some (Inr (concat (map (\<lambda>result. case result of
                                             None \<Rightarrow> []
                                           | Some d \<Rightarrow> if d = empty_doc then [] else [d])
                                 results))))"

section \<open>Predicates of the statements\<close>

text \<open>
  \<open>needs_no_comma\<close>: the quoted property name does not occur in the text, or its first
  occurrence comes right after a comma or an opening brace (the character before index 0
  being the last one, as \<open>fix_json_property\<close> reads it).  \<open>sets_title\<close>: the child is a
  level-2 heading with a non-empty \<open>id\<close>, the first test of \<open>scrape_doc_left_column\<close>.
  \<open>cell_text row i\<close>: the text of the element cell \<open>i\<close> of a row, as both parsers read it.
\<close>

definition needs_no_comma :: "string \<Rightarrow> string \<Rightarrow> bool" where
  "needs_no_comma property_name text \<longleftrightarrow>
     (case find_sub (quoted property_name) text of
        None \<Rightarrow> True
      | Some i \<Rightarrow>
          (case py_getitem text (int i - 1) of
             Inl e \<Rightarrow> False
           | Inr c \<Rightarrow> c = CHR '','' \<or> c = CHR ''{''))"

definition cell_text :: "node \<Rightarrow> nat \<Rightarrow> string" where
  "cell_text row i = get_text (filter isTag (children row) ! i) '' '' True"

definition sets_title :: "node \<Rightarrow> bool" where
  "sets_title child \<longleftrightarrow> name child = Some ''h2'' \<and> attr_truthy (map_of (attrs child) ''id'')"

section \<open>Example documents\<close>

text \<open>Small trees used to run the functions: cells, rows and tables, sections and pages.\<close>

definition cell :: "string \<Rightarrow> node" where
  "cell s = Tag ''td'' [] [NavigableString s]"

definition row_of :: "string list \<Rightarrow> node" where
  "row_of texts = Tag ''tr'' [] (map cell texts)"

definition table_of :: "string list list \<Rightarrow> node" where
  "table_of rows = Tag ''table'' [] [Tag ''tbody'' [] (map row_of rows)]"

definition heading :: "string \<Rightarrow> string \<Rightarrow> node" where
  "heading level s = Tag level [] [NavigableString s]"

definition titled_section :: "string \<Rightarrow> node" where
  "titled_section t =
     Tag ''section'' []
       [Tag ''section'' [(''class'', Multi [''left-docs''])]
          [Tag ''h2'' [(''id'', Str t)] [NavigableString t]],
        Tag ''section'' [(''class'', Multi [''right-code''])] []]"

definition page_of :: "node list \<Rightarrow> node" where
  "page_of main_children =
     Tag ''[document]'' []
       [Tag ''html'' []
          [Tag ''body'' [] [Tag ''div'' [(''class'', Multi [''main''])] main_children]]]"

section \<open>Properties of the comma repair\<close>

lemma fix_json_loop_none:
  "find_sub pat (drop index s) = None \<Longrightarrow> fix_json_loop pat s index = Some (Inr s)"
  by (subst fix_json_loop.simps) simp

lemma fix_json_loop_stop:
  "find_sub pat (drop index s) = Some i \<Longrightarrow> py_getitem s (int i - 1) = Inr c \<Longrightarrow>
   c = CHR '','' \<or> c = CHR ''{'' \<Longrightarrow> fix_json_loop pat s index = Some (Inr s)"
  by (subst fix_json_loop.simps) auto

lemma fix_json_loop_step:
  "find_sub pat (drop index s) = Some i \<Longrightarrow> py_getitem s (int i - 1) = Inr c \<Longrightarrow>
   c \<noteq> CHR '','' \<Longrightarrow> c \<noteq> CHR ''{'' \<Longrightarrow>
   fix_json_loop pat s index = fix_json_loop pat (take i s @ '','' @ drop i s) i"
  by (subst fix_json_loop.simps) auto

lemma find_sub_prefix: "prefix pat s \<Longrightarrow> find_sub pat s = Some 0"
  by (cases s) auto

lemma py_getitem_last: "xs \<noteq> [] \<Longrightarrow> py_getitem xs (- 1) = Inr (last xs)"
proof -
  assume ne: "xs \<noteq> []"
  then have "nat (int (length xs) + - 1) = length xs - 1"
    by (cases xs) simp_all
  moreover from ne have "Suc 0 \<le> length xs"
    by (cases xs) simp_all
  ultimately show ?thesis
    using ne by (simp add: py_getitem_def last_conv_nth)
qed

text \<open>
  The example of the specification: the comma missing before \<open>"data"\<close> is inserted, and the
  repaired text parses with both keys.
\<close>

lemma fix_json_property_spec_example:
  \<open>fix_json_property ''{"id":"1""data":"x"}'' ''data'' = Some (Inr ''{"id":"1","data":"x"}'')\<close>
  by code_simp

lemma json_loads_spec_example:
  \<open>json_loads ''{"id":"1","data":"x"}'' = Inr (JObject [(''id'', JString ''1''), (''data'', JString ''x'')])\<close>
  by code_simp

text \<open>
  C5.  The position stored in \<open>index\<close> is relative to the slice \<open>string_copy[index:]\<close> but is
  used as a position in \<open>string_copy\<close>.  After the first insertion the two differ: on an
  example that is an array, the second round reads \<open>string_copy[0]\<close>, which is \<open>[\<close>, and
  puts a comma at position 1, where the property name does not occur; a third round puts a
  second comma before \<open>"data"\<close>.  The result does not parse.
\<close>

theorem fix_json_property_array_example:
  \<open>fix_json_property ''[{"id":"1""data":"x"}]'' ''data'' = Some (Inr ''[,{"id":"1",,"data":"x"}]'')
   \<and> json_loads ''[,{"id":"1",,"data":"x"}]'' = Inl JSONDecodeError\<close>
  by code_simp

text \<open>
  C10.  When the text starts with the quoted property name, the first round finds it at
  index 0 and reads \<open>string_copy[0 - 1]\<close>, the last character of the text.  If that is
  neither a comma nor an opening brace, a comma is put in front of the text; the second
  round finds the name at index 1, reads the comma just inserted and returns.
\<close>

theorem fix_json_property_wraps_at_front:
  assumes "prefix (quoted property_name) text"
    and "last text \<noteq> CHR '',''" and "last text \<noteq> CHR ''{''"
  shows "py_getitem text (int 0 - 1) = Inr (last text) \<and>
         fix_json_property text property_name = Some (Inr (CHR '','' # text))"
proof -
  let ?pat = "quoted property_name"
  from assms(1) have ne: "text \<noteq> []" by (auto simp: quoted_def)
  have found0: "find_sub ?pat (drop 0 text) = Some 0"
    using assms(1) by (simp add: find_sub_prefix)
  have read0: "py_getitem text (int 0 - 1) = Inr (last text)"
    using ne by (simp add: py_getitem_last)
  have step1: "fix_json_loop ?pat text 0 = fix_json_loop ?pat (take 0 text @ '','' @ drop 0 text) 0"
    by (rule fix_json_loop_step [OF found0 read0 assms(2) assms(3)])
  have found1: "find_sub ?pat (drop 0 (CHR '','' # text)) = Some 1"
    using assms(1) by (simp add: find_sub_prefix quoted_def)
  have read1: "py_getitem (CHR '','' # text) (int 1 - 1) = Inr (CHR '','')"
    by (simp add: py_getitem_def)
  have "fix_json_loop ?pat (CHR '','' # text) 0 = Some (Inr (CHR '','' # text))"
    by (rule fix_json_loop_stop [OF found1 read1]) simp
  with step1 read0 show ?thesis by (simp add: fix_json_property_def)
qed

theorem fix_json_property_wraps_at_front_witness:
  \<open>prefix (quoted ''data'') ''"data":1'' \<and> last ''"data":1'' \<noteq> CHR '','' \<and> last ''"data":1'' \<noteq> CHR ''{'' \<and>
   py_getitem ''"data":1'' (int 0 - 1) = Inr (CHR ''1'') \<and>
   fix_json_property ''"data":1'' ''data'' = Some (Inr '',"data":1'')\<close>
  using fix_json_property_wraps_at_front [of "''data''" \<open>''"data":1''\<close>]
  by (simp add: quoted_def)

section \<open>Properties of the field tables\<close>

lemma annotate_field_keeps:
  assumes "description field = Some descr"
  shows "\<exists>field'. annotate_field field raw = Inr field' \<and> key field' = key field
           \<and> type field' = type field \<and> required field' = required field
           \<and> description field' = description field"
  using assms by (simp add: annotate_field_def Let_def split: option.split)

text \<open>
  C3, as stated, fails.  A row of four cells whose third cell reads \<open>Maybe\<close> gives a field
  in which \<open>required\<close> has never been assigned: the key is absent, it is not \<open>False\<close>.
\<close>

theorem required_other_text_counterexample:
  "map_sum id required (parse_request_row (row_of [''first'', ''Integer'', ''Maybe'', ''d''])) = Inr None
   \<and> length (filter isTag (children (row_of [''first'', ''Integer'', ''Maybe'', ''d'']))) = 4
   \<and> (None :: bool option) \<noteq> Some False"
  by code_simp

text \<open>
  C3, amended.  For every row with exactly four element cells the field is produced, and
  its \<open>required\<close> entry is \<open>True\<close> when the case-folded text of the third cell is \<open>yes\<close>,
  \<open>False\<close> when it is \<open>no\<close>, and absent for any other text.
\<close>

theorem required_from_third_cell:
  assumes "length (filter isTag (children row)) = 4"
  shows "\<exists>field. parse_request_row row = Inr field \<and>
           required field =
             (let bool_text = casefold (get_text (filter isTag (children row) ! 2) [] True)
              in if bool_text = ''yes'' then Some True
                 else if bool_text = ''no'' then Some False
                 else None)"
proof -
  let ?td = "filter isTag (children row)"
  let ?bt = "casefold (get_text (?td ! 2) [] True)"
  let ?f0 = "(new_field (get_text (?td ! 0) '' '' True) (casefold (get_text (?td ! 1) '' '' True)))
               \<lparr>description := Some (get_text (?td ! 3) '' '' True)\<rparr>"
  let ?f = "if ?bt = ''yes'' then ?f0\<lparr>required := Some True\<rparr>
            else if ?bt = ''no'' then ?f0\<lparr>required := Some False\<rparr> else ?f0"
  have g: "py_getitem ?td 0 = Inr (?td ! 0)" "py_getitem ?td 1 = Inr (?td ! 1)"
    "py_getitem ?td 2 = Inr (?td ! 2)" "py_getitem ?td 3 = Inr (?td ! 3)"
    using assms by (simp_all add: py_getitem_def)
  have cells: "request_cells ?td = Inr (?f, ?td ! 3)"
    using assms by (simp add: request_cells_def g Let_def)
  have d: "description ?f = Some (get_text (?td ! 3) '' '' True)"
    by simp
  from annotate_field_keeps [OF d, of "?td ! 3"]
  obtain field' where a: "annotate_field ?f (?td ! 3) = Inr field'"
    and r: "required field' = required ?f" by blast
  have "parse_request_row row = Inr field'"
    using a by (simp add: parse_request_row_def cells)
  moreover have "required ?f = (if ?bt = ''yes'' then Some True
                 else if ?bt = ''no'' then Some False else None)"
    by (simp add: new_field_def)
  ultimately show ?thesis using r by (simp add: Let_def)
qed

theorem required_from_third_cell_witness:
  "length (filter isTag (children (row_of [''first'', ''Integer'', ''Yes'', ''d'']))) = 4
   \<and> (\<exists>field. parse_request_row (row_of [''first'', ''Integer'', ''Yes'', ''d'']) = Inr field
        \<and> required field = Some True)"
  using required_from_third_cell [of "row_of [''first'', ''Integer'', ''Yes'', ''d'']"]
  by (simp add: row_of_def cell_def get_text_def py_strip_def py_isspace_def casefold_def casefold_char_def)

text \<open>
  C4.  The description \<open>The default is "100".\<close> gives the token \<open>"100".\<close>; since it starts
  with a double quote its first and last characters are removed, which takes the full stop
  and leaves the closing quote, and the final \<open>rstrip\<close> finds nothing to remove.  The
  default value stored is \<open>100"\<close>, through \<open>parse_request_body\<close> as well.
\<close>

theorem default_value_quoted_with_full_stop:
  \<open>default_value_of ''The default is "100".'' = Some [CHR ''1'', CHR ''0'', CHR ''0'', CHR 0x22]
   \<and> map_sum id (map default_value)
        (parse_request_body (table_of [[''first'', ''Integer'', ''The default is "100".'']]))
      = Inr [Some [CHR ''1'', CHR ''0'', CHR ''0'', CHR 0x22]]\<close>
  by code_simp

text \<open>The other example of the specification comes out as stated.\<close>

lemma default_value_plain_number:
  "default_value_of ''The default is 20.'' = Some ''20''"
  by code_simp

text \<open>
  C7, as stated, fails.  A row of five cells raises nothing: it is read like a row of three
  cells, the fourth and fifth being ignored.
\<close>

theorem five_cells_counterexample:
  "length (filter isTag (children (row_of [''a'', ''b'', ''c'', ''d'', ''e'']))) = 5
   \<and> parse_request_row (row_of [''a'', ''b'', ''c'', ''d'', ''e''])
       = Inr ((new_field ''a'' ''b'')\<lparr>required := Some False, description := Some ''c''\<rparr>)"
  by code_simp

text \<open>
  C7, amended.  A row with fewer than three element cells makes \<open>parse_request_body\<close> raise
  IndexError.  A row with five or more is accepted: its first three cells are taken as key,
  type and description, and \<open>required\<close> is \<open>False\<close>.
\<close>

theorem cell_count_outside_three_and_four:
  "(length (filter isTag (children row)) < 3 \<longrightarrow> parse_request_row row = Inl IndexError) \<and>
   (5 \<le> length (filter isTag (children row)) \<longrightarrow>
      (\<exists>field. parse_request_row row = Inr field
         \<and> key field = get_text (filter isTag (children row) ! 0) '' '' True
         \<and> type field = casefold (get_text (filter isTag (children row) ! 1) '' '' True)
         \<and> required field = Some False
         \<and> description field = Some (get_text (filter isTag (children row) ! 2) '' '' True)))"
proof (intro conjI impI)
  let ?td = "filter isTag (children row)"
  assume short: "length ?td < 3"
  then consider "length ?td = 0" | "length ?td = 1" | "length ?td = 2" by linarith
  then have "request_cells ?td = Inl IndexError"
  proof cases
    case 1
    then show ?thesis by (simp add: request_cells_def py_getitem_def)
  next
    case 2
    then show ?thesis by (simp add: request_cells_def py_getitem_def)
  next
    case 3
    then show ?thesis by (simp add: request_cells_def py_getitem_def Let_def)
  qed
  then show "parse_request_row row = Inl IndexError"
    by (simp add: parse_request_row_def)
next
  let ?td = "filter isTag (children row)"
  let ?f = "(new_field (get_text (?td ! 0) '' '' True) (casefold (get_text (?td ! 1) '' '' True)))
               \<lparr>required := Some False, description := Some (get_text (?td ! 2) '' '' True)\<rparr>"
  assume long: "5 \<le> length ?td"
  have g: "py_getitem ?td 0 = Inr (?td ! 0)" "py_getitem ?td 1 = Inr (?td ! 1)"
    "py_getitem ?td 2 = Inr (?td ! 2)"
    using long by (auto simp add: py_getitem_def)
  have cells: "request_cells ?td = Inr (?f, ?td ! 2)"
    using long by (simp add: request_cells_def g Let_def)
  have d: "description ?f = Some (get_text (?td ! 2) '' '' True)"
    by simp
  from annotate_field_keeps [OF d, of "?td ! 2"]
  obtain field' where a: "annotate_field ?f (?td ! 2) = Inr field'"
    and k: "key field' = key ?f" "type field' = type ?f" "required field' = required ?f"
      "description field' = description ?f" by blast
  have "parse_request_row row = Inr field'"
    using a by (simp add: parse_request_row_def cells)
  then show "\<exists>field. parse_request_row row = Inr field
         \<and> key field = get_text (?td ! 0) '' '' True
         \<and> type field = casefold (get_text (?td ! 1) '' '' True)
         \<and> required field = Some False
         \<and> description field = Some (get_text (?td ! 2) '' '' True)"
    using k by (simp add: new_field_def)
qed

theorem cell_count_outside_three_and_four_witness:
  "length (filter isTag (children (row_of [''a'', ''b'']))) < 3
   \<and> parse_request_row (row_of [''a'', ''b'']) = Inl IndexError
   \<and> 5 \<le> length (filter isTag (children (row_of [''a'', ''b'', ''c'', ''d'', ''e''])))
   \<and> (\<exists>field. parse_request_row (row_of [''a'', ''b'', ''c'', ''d'', ''e'']) = Inr field
         \<and> key field = ''a'' \<and> type field = ''b'' \<and> required field = Some False
         \<and> description field = Some ''c'')"
  using cell_count_outside_three_and_four [of "row_of [''a'', ''b'']"]
    cell_count_outside_three_and_four [of "row_of [''a'', ''b'', ''c'', ''d'', ''e'']"]
  by (simp add: row_of_def cell_def get_text_def py_strip_def py_isspace_def casefold_def casefold_char_def)

section \<open>Properties of the walk over the page\<close>

text \<open>
  C1.  The flag \<open>at_endpoint_definition_table\<close> is cleared by the first child of the main
  container, whatever it is.  When a string node comes first, it uses up the skip, and the
  first section is scraped like the others: both sections yield a record here.
\<close>

theorem scrape_docs_text_node_first:
  "scrape_docs \<lparr>ok = True,
                 soup = page_of [NavigableString [CHR 0x0A], titled_section ''A'', titled_section ''B'']\<rparr>
   = Some (Inr [Some (empty_doc\<lparr>title := Some ''A''\<rparr>), Some (empty_doc\<lparr>title := Some ''B''\<rparr>)])"
  by code_simp

text \<open>
  C8.  When the response is not a success, \<open>scrape_docs\<close> yields nothing and raises
  nothing, and \<open>main\<close> writes the empty list, as it does for a page whose main container is
  empty.
\<close>

theorem failed_fetch_yields_nothing:
  assumes "\<not> ok resp"
  shows "scrape_docs resp = Some (Inr []) \<and> main resp = Some (Inr [])
         \<and> main resp = main \<lparr>ok = True, soup = page_of []\<rparr>"
proof -
  have "scrape_docs resp = Some (Inr [])"
    using assms by (simp add: scrape_docs_def)
  moreover have "main \<lparr>ok = True, soup = page_of []\<rparr> = Some (Inr [])"
    by code_simp
  ultimately show ?thesis by (simp add: main_def)
qed

theorem failed_fetch_yields_nothing_witness:
  "\<not> ok \<lparr>ok = False, soup = page_of [titled_section ''A'', titled_section ''B'']\<rparr>
   \<and> main \<lparr>ok = False, soup = page_of [titled_section ''A'', titled_section ''B'']\<rparr> = Some (Inr [])
   \<and> main \<lparr>ok = True, soup = page_of [titled_section ''A'', titled_section ''B'']\<rparr>
       = Some (Inr [empty_doc\<lparr>title := Some ''B''\<rparr>])"
proof -
  have "main \<lparr>ok = True, soup = page_of [titled_section ''A'', titled_section ''B'']\<rparr>
       = Some (Inr [empty_doc\<lparr>title := Some ''B''\<rparr>])"
    by code_simp
  then show ?thesis
    using failed_fetch_yields_nothing
      [of "\<lparr>ok = False, soup = page_of [titled_section ''A'', titled_section ''B'']\<rparr>"]
    by simp
qed

section \<open>Properties of the repair before parsing\<close>

lemma py_replace_absent: "\<not> py_in old s \<Longrightarrow> py_replace old new s = s"
proof (induction s)
  case Nil
  show ?case by simp
next
  case (Cons c cs)
  from Cons.prems have np: "\<not> prefix old (c # cs)" and rest: "\<not> py_in old cs"
    by (auto simp: py_in_def split: if_splits)
  from np rest Cons.IH show ?case by simp
qed

lemma fix_json_property_unchanged:
  assumes "needs_no_comma property_name text"
  shows "fix_json_property text property_name = Some (Inr text)"
proof (cases "find_sub (quoted property_name) text")
  case None
  then show ?thesis
    by (simp add: fix_json_property_def fix_json_loop_none)
next
  case (Some i)
  with assms obtain c where c: "py_getitem text (int i - 1) = Inr c"
    and sep: "c = CHR '','' \<or> c = CHR ''{''"
    by (auto simp: needs_no_comma_def split: sum.splits)
  from Some have "find_sub (quoted property_name) (drop 0 text) = Some i" by simp
  from fix_json_loop_stop [OF this c sep] show ?thesis
    by (simp add: fix_json_property_def)
qed

text \<open>
  C6, as stated, fails.  The text \<open>{"msg":"wait..."}\<close> is valid JSON, and the repair removes
  the three dots inside its string: the value parsed afterwards is another one.
\<close>

theorem repair_changes_valid_json_counterexample:
  \<open>json_loads ''{"msg":"wait..."}'' = Inr (JObject [(''msg'', JString ''wait...'')])
   \<and> repair_and_parse ''{"msg":"wait..."}'' = Some (Inr (JObject [(''msg'', JString ''wait'')]))
   \<and> JObject [(''msg'', JString ''wait...'')] \<noteq> JObject [(''msg'', JString ''wait'')]\<close>
  by code_simp

text \<open>
  C6, amended.  For every text that parses as valid JSON, contains none of \<open>...\<close>, \<open>,]\<close> and
  \<open>,}\<close>, and in which \<open>"data"\<close> and \<open>"click_action"\<close> each either do not occur or first occur
  right after a comma or an opening brace, the repair returns the text unchanged, and
  parsing the repaired text yields the value of the original text.
\<close>

theorem repair_leaves_clean_text:
  assumes "json_loads text = Inr v"
    and "\<not> py_in ''...'' text" and "\<not> py_in '',]'' text" and "\<not> py_in '',}'' text"
    and "needs_no_comma ''data'' text" and "needs_no_comma ''click_action'' text"
  shows "repair text = Some (Inr text) \<and> repair_and_parse text = Some (Inr v)"
proof -
  have "repair text = Some (Inr text)"
    using assms(2-6)
    by (simp add: repair_def py_replace_absent fix_json_property_unchanged)
  with assms(1) show ?thesis by (simp add: repair_and_parse_def)
qed

theorem repair_leaves_clean_text_witness:
  \<open>json_loads ''{"id":"1","data":"x"}'' = Inr (JObject [(''id'', JString ''1''), (''data'', JString ''x'')])
   \<and> \<not> py_in ''...'' ''{"id":"1","data":"x"}'' \<and> \<not> py_in '',]'' ''{"id":"1","data":"x"}''
   \<and> \<not> py_in '',}'' ''{"id":"1","data":"x"}''
   \<and> needs_no_comma ''data'' ''{"id":"1","data":"x"}''
   \<and> needs_no_comma ''click_action'' ''{"id":"1","data":"x"}''
   \<and> repair_and_parse ''{"id":"1","data":"x"}''
        = Some (Inr (JObject [(''id'', JString ''1''), (''data'', JString ''x'')]))\<close>
proof -
  have a: \<open>json_loads ''{"id":"1","data":"x"}'' = Inr (JObject [(''id'', JString ''1''), (''data'', JString ''x'')])\<close>
    by code_simp
  have b: \<open>\<not> py_in ''...'' ''{"id":"1","data":"x"}''\<close> by code_simp
  have c: \<open>\<not> py_in '',]'' ''{"id":"1","data":"x"}''\<close> by code_simp
  have d: \<open>\<not> py_in '',}'' ''{"id":"1","data":"x"}''\<close> by code_simp
  have e: \<open>needs_no_comma ''data'' ''{"id":"1","data":"x"}''\<close> by code_simp
  have f: \<open>needs_no_comma ''click_action'' ''{"id":"1","data":"x"}''\<close> by code_simp
  from repair_leaves_clean_text [OF a b c d e f] a b c d e f show ?thesis by simp
qed

section \<open>Properties of the left column\<close>

lemma fold_err_append:
  "fold_err body (xs @ ys) s =
     (case fold_err body xs s of Inl e \<Rightarrow> Inl e | Inr s' \<Rightarrow> fold_err body ys s')"
  by (induction xs arbitrary: s) (auto split: sum.splits)

lemma left_column_step_untitled:
  assumes "title (fst st) = None" and "\<not> sets_title child"
    and "left_column_step st child = Inr st'"
  shows "title (fst st') = None"
  using assms
  by (auto simp: left_column_step_def sets_title_def Let_def split: if_splits sum.splits)

lemma left_column_step_paragraph:
  assumes "title (fst st) = None" and "name p = Some ''p''"
  shows "left_column_step st p = Inl (KeyError ''title'')"
  using assms by (simp add: left_column_step_def Let_def)

lemma left_column_step_untitled_error:
  assumes "title (fst st) = None" and "name child \<noteq> Some ''table''"
    and "left_column_step st child = Inl e"
  shows "e = KeyError ''title''"
  using assms
  by (auto simp: left_column_step_def Let_def split: if_splits sum.splits)

lemma fold_untitled:
  assumes "\<forall>c \<in> set pre. \<not> sets_title c" and "title (fst st) = None"
    and "fold_err left_column_step pre st = Inr st'"
  shows "title (fst st') = None"
  using assms
proof (induction pre arbitrary: st)
  case Nil
  then show ?case by simp
next
  case (Cons c cs)
  from Cons.prems(3) obtain st1 where s1: "left_column_step st c = Inr st1"
    and s2: "fold_err left_column_step cs st1 = Inr st'"
    by (auto split: sum.splits)
  from Cons.prems(1,2) s1 have "title (fst st1) = None"
    by (auto intro: left_column_step_untitled)
  with Cons.IH [of st1] Cons.prems(1) s2 show ?case by simp
qed

lemma fold_untitled_error:
  assumes "\<forall>c \<in> set pre. \<not> sets_title c" and "\<forall>c \<in> set pre. name c \<noteq> Some ''table''"
    and "title (fst st) = None"
    and "fold_err left_column_step pre st = Inl e"
  shows "e = KeyError ''title''"
  using assms
proof (induction pre arbitrary: st)
  case Nil
  then show ?case by simp
next
  case (Cons c cs)
  show ?case
  proof (cases "left_column_step st c")
    case (Inl e')
    with Cons.prems(4) have "e' = e" by simp
    with Inl Cons.prems(2,3) show ?thesis
      by (auto dest: left_column_step_untitled_error)
  next
    case (Inr st1)
    with Cons.prems(1,3) have "title (fst st1) = None"
      by (auto intro: left_column_step_untitled)
    moreover from Inr Cons.prems(4) have "fold_err left_column_step cs st1 = Inl e" by simp
    ultimately show ?thesis using Cons.IH [of st1] Cons.prems(1,2) by simp
  qed
qed

text \<open>
  C9, as stated, fails.  A table without \<open>tbody\<close> under the heading \<open>Request Body\<close> makes
  the function raise AttributeError before the paragraph is reached: the error is not the
  key lookup.
\<close>

theorem paragraph_after_broken_table_counterexample:
  "scrape_doc_left_column
     (Tag ''section'' [] [heading ''h3'' ''Request Body'', Tag ''table'' [] [], heading ''p'' ''x''])
   = Inl AttributeError \<and> AttributeError \<noteq> KeyError ''title''"
  by code_simp

text \<open>
  C9, amended.  When a paragraph comes before any level-2 heading with an \<open>id\<close>, the function
  returns no record: it raises at that paragraph, with KeyError for the absent \<open>title\<close>,
  unless a child before the paragraph has already raised.  Only a table can raise anything
  else, so without a table before the paragraph the error is the KeyError.
\<close>

theorem paragraph_before_title:
  assumes "children tag = pre @ p # rest"
    and "name p = Some ''p''"
    and "\<forall>c \<in> set pre. \<not> sets_title c"
  shows "scrape_doc_left_column tag =
           (case fold_err left_column_step pre (empty_doc, None) of
              Inl e \<Rightarrow> Inl e
            | Inr st \<Rightarrow> Inl (KeyError ''title''))
         \<and> (\<exists>e. scrape_doc_left_column tag = Inl e)
         \<and> ((\<forall>c \<in> set pre. name c \<noteq> Some ''table'') \<longrightarrow>
              scrape_doc_left_column tag = Inl (KeyError ''title''))"
proof -
  let ?start = "(empty_doc, None :: string option)"
  have t0: "title (fst ?start) = None" by (simp add: empty_doc_def)
  have main: "scrape_doc_left_column tag =
           (case fold_err left_column_step pre ?start of
              Inl e \<Rightarrow> Inl e
            | Inr st \<Rightarrow> Inl (KeyError ''title''))"
  proof (cases "fold_err left_column_step pre ?start")
    case (Inl e)
    then show ?thesis
      by (simp add: scrape_doc_left_column_def assms(1) fold_err_append)
  next
    case (Inr st)
    from fold_untitled [OF assms(3) t0 Inr] have "title (fst st) = None" .
    from left_column_step_paragraph [OF this assms(2)] Inr show ?thesis
      by (simp add: scrape_doc_left_column_def assms(1) fold_err_append)
  qed
  moreover from main have "\<exists>e. scrape_doc_left_column tag = Inl e"
    by (auto split: sum.splits)
  moreover have "scrape_doc_left_column tag = Inl (KeyError ''title'')"
    if nt: "\<forall>c \<in> set pre. name c \<noteq> Some ''table''"
  proof (cases "fold_err left_column_step pre ?start")
    case (Inl e)
    from fold_untitled_error [OF assms(3) nt t0 Inl] Inl main show ?thesis by simp
  next
    case (Inr st)
    with main show ?thesis by simp
  qed
  ultimately show ?thesis by blast
qed

theorem paragraph_before_title_witness:
  "children (Tag ''section'' [] [heading ''h3'' ''URL'', heading ''p'' ''GET /streams''])
     = [heading ''h3'' ''URL''] @ heading ''p'' ''GET /streams'' # []
   \<and> name (heading ''p'' ''GET /streams'') = Some ''p''
   \<and> \<not> sets_title (heading ''h3'' ''URL'')
   \<and> name (heading ''h3'' ''URL'') \<noteq> Some ''table''
   \<and> scrape_doc_left_column (Tag ''section'' [] [heading ''h3'' ''URL'', heading ''p'' ''GET /streams''])
       = Inl (KeyError ''title'')"
  using paragraph_before_title [of "Tag ''section'' [] [heading ''h3'' ''URL'', heading ''p'' ''GET /streams'']"
      "[heading ''h3'' ''URL'']" "heading ''p'' ''GET /streams''" "[]", THEN conjunct2, THEN conjunct2]
  by (simp add: heading_def sets_title_def)

end
